theory Spec2Isabelle
  imports Main
begin

section \<open>ChatPromptWidget: data\<close>

text \<open>
  The development follows \<^verbatim>\<open>src/airunner/gui/widgets/llm/chat_prompt_widget.py\<close>.
  The widget object is a record that every method takes and returns. Calls that leave
  the widget (the LLM API, timers, the progress bar, the logger) are appended to the
  field \<open>effects\<close> in the order in which the code makes them; each entry also keeps
  the values of \<open>generating\<close> and \<open>held_message\<close> at the instant of the call.
\<close>

datatype LLMActionType = APPLICATION_COMMAND | CHAT | PERFORM_RAG_SEARCH | GENERATE_IMAGE

text \<open>Only the members \<open>SD\<close> and \<open>LLM\<close> of \<open>ModelType\<close> and the member \<open>LOADED\<close> of
  \<open>ModelStatus\<close> are named by the widget; every other member is \<open>OtherModel\<close>,
  \<open>OtherStatus\<close>.\<close>

datatype ModelType = SD | LLM | OtherModel string

datatype ModelStatus = LOADED | OtherStatus string

datatype error = ValueError string | KeyError string | AttributeError string

text \<open>The arguments of the constructor call \<open>MessageWidget(...)\<close>.\<close>

record MessageWidget =
  w_name :: string
  w_message :: string
  w_is_bot :: bool
  w_message_id :: int
  w_conversation_id :: "int option"
  w_mood :: "string option"
  w_mood_emoji :: "string option"

text \<open>An item of the layout of \<open>ui.scrollAreaWidgetContents\<close>: an item holding a
  \<open>MessageWidget\<close>, the item \<open>self.spacer\<close>, or any other item (its widget is not a
  \<open>MessageWidget\<close>). \<open>addWidget\<close> and \<open>addItem\<close> put an item at the end, \<open>itemAt\<close> and
  \<open>takeAt\<close> count from the front.\<close>

datatype layout_item = MessageItem MessageWidget | SpacerItem | OtherItem

record LLMResponse =
  message :: string
  node_id :: "string option"
  is_first_message :: bool
  is_end_of_message :: bool

text \<open>The values a signal's \<open>data\<close> dictionary holds under a key.\<close>

datatype pyval = PNone | PBool bool | PInt int | PStr string | PResponse LLMResponse

type_synonym pydict = "string \<rightharpoonup> pyval"

text \<open>Python's truth value: \<open>if not llm_response\<close>.\<close>

fun truthy :: "pyval \<Rightarrow> bool" where
  "truthy PNone = False"
| "truthy (PBool b) = b"
| "truthy (PInt i) = (i \<noteq> 0)"
| "truthy (PStr t) = (t \<noteq> [])"
| "truthy (PResponse r) = True"

text \<open>An entry of \<open>conversation_history\<close>, read by \<open>flush_token_buffer\<close> under the keys
  \<open>is_bot\<close> and \<open>content\<close>.\<close>

record history_entry =
  h_is_bot :: bool
  h_content :: string

text \<open>A message of the payload of \<open>on_load_conversation\<close>, read under the keys \<open>name\<close>,
  \<open>content\<close> and \<open>is_bot\<close>.\<close>

record message_dict =
  m_name :: string
  m_content :: string
  m_is_bot :: bool

record load_data =
  ld_conversation_id :: "int option"
  ld_messages :: "message_dict list"

record Conversation =
  conv_id :: "int option"

record model_status_data =
  sd_model :: ModelType
  sd_status :: ModelStatus

datatype effect =
    SendRequest string LLMActionType
  | Interrupt
  | ClearHistory "int option"
  | SwitchToNonArtMode
  | LogWarning string
  | ScheduleScroll nat
  | ScheduleSetContentSize nat
  | ProgressStart
  | ProgressStop
  | SendButtonEnabled
  | LayoutUpdate
  | UpdateMessage string

datatype logged = Logged (eff: effect) (generating_at: bool) (held_at: "string option")

text \<open>What the widget reads from its collaborators. \<open>strip_names_from_message\<close>
  (\<open>airunner.utils.llm\<close>), the method \<open>update_message\<close> of \<open>MessageWidget\<close> and
  \<open>Conversation.objects.filter_by_first\<close> are not part of the widget's file and stay
  parameters: what is proved of the widget holds whatever they compute. \<open>update_message\<close>
  takes the widget and the text and gives the widget after the call. \<open>loaded_models\<close> is
  \<open>None\<close> when the API object has no \<open>model_load_balancer\<close>, and the result of
  \<open>get_loaded_models()\<close> otherwise.\<close>

record Env =
  strip_names_from_message :: "string \<Rightarrow> string \<Rightarrow> string \<Rightarrow> string"
  update_message :: "MessageWidget \<Rightarrow> string \<Rightarrow> MessageWidget"
  username :: string
  botname :: string
  bot_mood :: "string option"
  bot_mood_emoji :: "string option"
  loaded_models :: "ModelType list option"
  filter_by_first :: "int \<Rightarrow> Conversation option"

text \<open>The fields of the widget that its methods read or write. \<open>spacer\<close> is True when
  \<open>self.spacer\<close> is not \<open>None\<close>; \<open>priv_conversation\<close> and \<open>priv_conversation_id\<close> are
  \<open>self._conversation\<close> and \<open>self._conversation_id\<close>; \<open>disabled\<close> is \<open>self._disabled\<close>;
  \<open>llm_action\<close> is the member that the property \<open>action\<close> looks up under the name
  \<open>self.llm_generator_settings.action\<close> (the setting is taken to hold a member's name, as
  \<open>llm_action_changed\<close> writes it); \<open>ui_prompt\<close> and \<open>ui_conversation\<close> are the texts of
  \<open>ui.prompt\<close> and \<open>ui.conversation\<close>. \<open>self.prompt\<close> is a string: the constructor,
  \<open>prompt_text_changed\<close> and the transcription of \<open>on_hear_signal\<close> assign one.\<close>

record ChatPromptWidget =
  token_buffer :: "string list"
  generating :: bool
  prompt :: string
  chat_loaded :: bool
  priv_conversation :: "Conversation option"
  priv_conversation_id :: "int option"
  conversation_history :: "history_entry list"
  held_message :: "string option"
  disabled :: bool
  spacer :: bool
  action_menu_displayed :: "bool option"
  llm_action :: LLMActionType
  layout :: "layout_item list"
  ui_prompt :: string
  ui_conversation :: string
  effects :: "logged list"

section \<open>ChatPromptWidget: methods\<close>

definition emit :: "effect \<Rightarrow> ChatPromptWidget \<Rightarrow> ChatPromptWidget" where
  "emit e s = s\<lparr>effects := effects s @ [Logged e (generating s) (held_message s)]\<rparr>"

text \<open>The state \<open>__init__\<close> leaves: the fields it assigns have the values below; the
  layout comes from the UI template and the action from the settings.\<close>

definition is_initial :: "ChatPromptWidget \<Rightarrow> bool" where
  "is_initial s \<longleftrightarrow>
     token_buffer s = [] \<and> \<not> generating s \<and> prompt s = [] \<and> \<not> chat_loaded s \<and>
     priv_conversation s = None \<and> priv_conversation_id s = None \<and>
     conversation_history s = [] \<and> held_message s = None \<and> \<not> disabled s \<and>
     \<not> spacer s \<and> action_menu_displayed s = None \<and>
     SpacerItem \<notin> set (layout s) \<and> effects s = []"

definition conversation :: "ChatPromptWidget \<Rightarrow> Conversation option" where
  "conversation s = priv_conversation s"

definition conversation_id :: "ChatPromptWidget \<Rightarrow> int option" where
  "conversation_id s = priv_conversation_id s"

definition set_conversation :: "ChatPromptWidget \<Rightarrow> Conversation option \<Rightarrow> ChatPromptWidget" where
  "set_conversation s val =
     s\<lparr>priv_conversation := val,
       priv_conversation_id := (case val of None \<Rightarrow> None | Some c \<Rightarrow> conv_id c)\<rparr>"

definition set_conversation_id :: "Env \<Rightarrow> ChatPromptWidget \<Rightarrow> int option \<Rightarrow> ChatPromptWidget" where
  "set_conversation_id E s val =
     (let s1 = s\<lparr>priv_conversation_id := val\<rparr>
      in case val of
           None \<Rightarrow> s1\<lparr>priv_conversation := None\<rparr>
         | Some v \<Rightarrow>
             if v \<noteq> 0 then s1\<lparr>priv_conversation := filter_by_first E v\<rparr>
             else s1\<lparr>priv_conversation := None\<rparr>)"

definition start_progress_bar :: "ChatPromptWidget \<Rightarrow> ChatPromptWidget" where
  "start_progress_bar s = emit ProgressStart s"

definition stop_progress_bar :: "ChatPromptWidget \<Rightarrow> ChatPromptWidget" where
  "stop_progress_bar s = emit ProgressStop s"

definition disable_send_button :: "ChatPromptWidget \<Rightarrow> ChatPromptWidget" where
  "disable_send_button s = s"

definition enable_send_button :: "ChatPromptWidget \<Rightarrow> ChatPromptWidget" where
  "enable_send_button s = (emit SendButtonEnabled s)\<lparr>disabled := False\<rparr>"

definition prompt_text_changed :: "ChatPromptWidget \<Rightarrow> ChatPromptWidget" where
  "prompt_text_changed s = s\<lparr>prompt := ui_prompt s\<rparr>"

text \<open>\<open>clear_prompt\<close> empties the text field. Whether Qt then calls \<open>prompt_text_changed\<close>
  depends on the signal connections of the UI template, so that call is a step of its
  own (\<open>r_text\<close> below) and \<open>self.prompt\<close> is left as it is here.\<close>

definition clear_prompt :: "ChatPromptWidget \<Rightarrow> ChatPromptWidget" where
  "clear_prompt s = s\<lparr>ui_prompt := []\<rparr>"

definition interrupt_button_clicked :: "ChatPromptWidget \<Rightarrow> ChatPromptWidget" where
  "interrupt_button_clicked s =
     enable_send_button ((stop_progress_bar (emit Interrupt s))\<lparr>generating := False\<rparr>)"

definition remove_spacer :: "ChatPromptWidget \<Rightarrow> ChatPromptWidget" where
  "remove_spacer s = (if spacer s then s\<lparr>layout := remove1 SpacerItem (layout s)\<rparr> else s)"

definition add_spacer :: "ChatPromptWidget \<Rightarrow> ChatPromptWidget" where
  "add_spacer s = s\<lparr>spacer := True, layout := layout s @ [SpacerItem]\<rparr>"

text \<open>Python's \<open>str.lstrip()\<close> with no argument drops the leading white space; below
  code point 256 the white-space characters are these.\<close>

definition is_space :: "char \<Rightarrow> bool" where
  "is_space c \<longleftrightarrow> (of_char c :: nat) \<in> set [9, 10, 11, 12, 13, 28, 29, 30, 31, 32, 133, 160]"

definition lstrip :: "string \<Rightarrow> string" where
  "lstrip t = dropWhile is_space t"

text \<open>The loop \<open>for i in range(count - 1, -1, -1)\<close> of \<open>add_message_to_conversation\<close>,
  up to the first item whose widget is a \<open>MessageWidget\<close>: there the loop ends, by
  \<open>return\<close> or by \<open>break\<close>. The second argument is the number of items still to visit.\<close>

fun find_message_widget :: "layout_item list \<Rightarrow> nat \<Rightarrow> (nat \<times> MessageWidget) option" where
  "find_message_widget items 0 = None"
| "find_message_widget items (Suc i) =
     (case items ! i of
        MessageItem w \<Rightarrow> Some (i, w)
      | _ \<Rightarrow> find_message_widget items i)"

text \<open>The part of \<open>add_message_to_conversation\<close> from \<open>self.remove_spacer()\<close> on, with
  the message already stripped.\<close>

definition append_message ::
  "Env \<Rightarrow> ChatPromptWidget \<Rightarrow> string \<Rightarrow> string \<Rightarrow> bool \<Rightarrow> ChatPromptWidget \<times> MessageWidget option" where
  "append_message E s name0 msg is_bot0 =
     (let s1 = remove_spacer s
      in if msg \<noteq> [] then
           let total_widgets = int (length (layout s1)) - 1;
               total_widgets = (if total_widgets < 0 then 0 else total_widgets);
               mood = (if is_bot0 then bot_mood E else None);
               mood_emoji = (if is_bot0 then bot_mood_emoji E else None);
               widget = \<lparr>w_name = name0, w_message = msg, w_is_bot = is_bot0,
                         w_message_id = total_widgets,
                         w_conversation_id = conversation_id s1,
                         w_mood = (if is_bot0 then mood else None),
                         w_mood_emoji = (if is_bot0 then mood_emoji else None)\<rparr>;
               s2 = s1\<lparr>layout := layout s1 @ [MessageItem widget]\<rparr>;
               s3 = emit (ScheduleScroll 0) s2
           in (add_spacer s3, Some widget)
         else (add_spacer s1, None))"

definition add_message_to_conversation ::
  "Env \<Rightarrow> ChatPromptWidget \<Rightarrow> string \<Rightarrow> string \<Rightarrow> bool \<Rightarrow> bool \<Rightarrow>
     ChatPromptWidget \<times> MessageWidget option" where
  "add_message_to_conversation E s name0 message0 is_bot0 first_message =
     (let msg = strip_names_from_message E
                  (if first_message then lstrip message0 else message0)
                  (username E) (botname E)
      in if \<not> first_message then
           (case find_message_widget (layout s) (length (layout s)) of
              Some (i, current_widget) \<Rightarrow>
                if w_is_bot current_widget then
                  (if msg \<noteq> [] then
                     (emit (ScheduleScroll 0)
                        (emit (UpdateMessage msg)
                           (s\<lparr>layout := (layout s)[i := MessageItem (update_message E current_widget msg)]\<rparr>)),
                      None)
                   else (s, None))
                else append_message E s name0 msg is_bot0
            | None \<Rightarrow> append_message E s name0 msg is_bot0)
         else append_message E s name0 msg is_bot0)"

definition do_generate :: "Env \<Rightarrow> ChatPromptWidget \<Rightarrow> string option \<Rightarrow> ChatPromptWidget" where
  "do_generate E s prompt_override =
     (let prompt0 = (case prompt_override of
                       None \<Rightarrow> prompt s
                     | Some p \<Rightarrow> if p = [] then prompt s else p)
      in if prompt0 = [] then emit (LogWarning ''Prompt is empty'') s
         else
           let art_model_loaded = (case loaded_models E of None \<Rightarrow> False | Some ms \<Rightarrow> SD \<in> set ms);
               llm_loaded = (case loaded_models E of None \<Rightarrow> False | Some ms \<Rightarrow> LLM \<in> set ms);
               s1 = (if art_model_loaded \<and> \<not> llm_loaded then emit SwitchToNonArtMode s else s)
           in if generating s1 then
                (if held_message s1 = None then
                   interrupt_button_clicked (disable_send_button (s1\<lparr>held_message := Some prompt0\<rparr>))
                 else s1)
              else
                let s2 = s1\<lparr>generating := True\<rparr>;
                    (s3, widget) = add_message_to_conversation E s2 (username E) (prompt s2) False True;
                    s4 = (case widget of
                            None \<Rightarrow> s3
                          | Some w \<Rightarrow> emit (ScheduleScroll 100) (emit (ScheduleSetContentSize 100) s3));
                    s5 = clear_prompt s4;
                    s6 = start_progress_bar s5
                in emit (SendRequest prompt0 (llm_action s6)) s6)"

definition enable_generate :: "Env \<Rightarrow> ChatPromptWidget \<Rightarrow> ChatPromptWidget" where
  "enable_generate E s =
     (let s1 = s\<lparr>generating := False\<rparr>;
          s2 = (case held_message s1 of
                  None \<Rightarrow> s1
                | Some h \<Rightarrow> (do_generate E s1 (Some h))\<lparr>held_message := None\<rparr>)
      in enable_send_button s2)"

definition on_add_bot_message_to_conversation ::
  "Env \<Rightarrow> ChatPromptWidget \<Rightarrow> pydict \<Rightarrow> error option \<times> ChatPromptWidget" where
  "on_add_bot_message_to_conversation E s data =
     (let llm_response = (case data ''response'' of None \<Rightarrow> PNone | Some v \<Rightarrow> v)
      in if \<not> truthy llm_response then
           (Some (ValueError ''No LLMResponse object found in data''), s)
         else
           (case llm_response of
              PResponse r \<Rightarrow>
                if node_id r \<noteq> None then (None, s)
                else
                  let s1 = s\<lparr>token_buffer := token_buffer s @ [message r]\<rparr>;
                      s2 = (if is_first_message r then stop_progress_bar s1 else s1);
                      s3 = (if is_end_of_message r then enable_generate E s2 else s2)
                  in (None, s3)
            | _ \<Rightarrow> (Some (AttributeError ''node_id''), s)))"

text \<open>The first two statements of \<open>flush_token_buffer\<close>: join the buffer, clear it.\<close>

definition drain :: "ChatPromptWidget \<Rightarrow> string \<times> ChatPromptWidget" where
  "drain s = (concat (token_buffer s), s\<lparr>token_buffer := []\<rparr>)"

definition flush_token_buffer :: "Env \<Rightarrow> ChatPromptWidget \<Rightarrow> ChatPromptWidget" where
  "flush_token_buffer E s =
     (let (combined_message, s1) = drain s
      in if combined_message \<noteq> [] then
           (if length (conversation_history s1) = 0
               \<or> \<not> h_is_bot (last (conversation_history s1))
               \<or> h_content (last (conversation_history s1)) \<noteq> combined_message
            then fst (add_message_to_conversation E s1 (botname E) combined_message True False)
            else s1)
         else s1)"

text \<open>The loop \<open>while layout.count(): item = layout.takeAt(0) ...\<close>.\<close>

fun take_all :: "layout_item list \<Rightarrow> layout_item list" where
  "take_all [] = []"
| "take_all (item # items) = take_all items"

definition clear_conversation_widgets :: "ChatPromptWidget \<Rightarrow> bool \<Rightarrow> ChatPromptWidget" where
  "clear_conversation_widgets s skip_update =
     (let s1 = s\<lparr>layout := take_all (layout s)\<rparr>
      in if \<not> skip_update then emit LayoutUpdate s1 else s1)"

definition clear_conversation :: "ChatPromptWidget \<Rightarrow> bool \<Rightarrow> ChatPromptWidget" where
  "clear_conversation s skip_update =
     clear_conversation_widgets (s\<lparr>conversation_history := []\<rparr>) skip_update"

fun set_conversation_widgets :: "Env \<Rightarrow> ChatPromptWidget \<Rightarrow> message_dict list \<Rightarrow> ChatPromptWidget" where
  "set_conversation_widgets E s [] = s"
| "set_conversation_widgets E s (m # ms) =
     set_conversation_widgets E
       (fst (add_message_to_conversation E s (m_name m) (m_content m) (m_is_bot m) True)) ms"

definition on_load_conversation :: "Env \<Rightarrow> ChatPromptWidget \<Rightarrow> load_data \<Rightarrow> ChatPromptWidget" where
  "on_load_conversation E s data =
     (let s' = (case ld_conversation_id data of
                  Some cid \<Rightarrow>
                    let s1 = set_conversation_id E s (Some cid);
                        s2 = emit (ClearHistory (Some cid)) s1;
                        s3 = clear_conversation s2 True
                    in set_conversation_widgets E s3 (ld_messages data)
                | None \<Rightarrow> set_conversation (clear_conversation s True) None)
      in emit (ScheduleScroll 100) s')"

text \<open>\<open>data["conversation_id"]\<close> is evaluated first and raises \<open>KeyError\<close> when the key
  is missing; the value is an id or \<open>None\<close>.\<close>

definition on_delete_conversation ::
  "ChatPromptWidget \<Rightarrow> (string \<rightharpoonup> int option) \<Rightarrow> error option \<times> ChatPromptWidget" where
  "on_delete_conversation s data =
     (case data ''conversation_id'' of
        None \<Rightarrow> (Some (KeyError ''conversation_id''), s)
      | Some v \<Rightarrow>
          let s1 = (if conversation_id s = v \<or> conversation_id s = None
                    then clear_conversation_widgets s False else s)
          in (None, set_conversation s1 None))"

definition handle_token_signal :: "ChatPromptWidget \<Rightarrow> string \<Rightarrow> ChatPromptWidget" where
  "handle_token_signal s val =
     (if val \<noteq> ''[END]'' then s\<lparr>ui_conversation := ui_conversation s @ val\<rparr>
      else enable_send_button ((stop_progress_bar s)\<lparr>generating := False\<rparr>))"

definition on_token_signal :: "ChatPromptWidget \<Rightarrow> string \<Rightarrow> ChatPromptWidget" where
  "on_token_signal s val = handle_token_signal s val"

definition on_model_status_changed_signal :: "ChatPromptWidget \<Rightarrow> model_status_data \<Rightarrow> ChatPromptWidget" where
  "on_model_status_changed_signal s data =
     (let s1 = (if sd_model data = LLM then s\<lparr>chat_loaded := (sd_status data = LOADED)\<rparr> else s)
      in if \<not> chat_loaded s1 then disable_send_button s1 else enable_send_button s1)"

definition on_chatbot_changed :: "ChatPromptWidget \<Rightarrow> ChatPromptWidget" where
  "on_chatbot_changed s = clear_conversation (emit (ClearHistory None) s) False"

definition on_clear_conversation :: "ChatPromptWidget \<Rightarrow> ChatPromptWidget" where
  "on_clear_conversation s = clear_conversation s False"

definition action_button_clicked_clear_conversation :: "ChatPromptWidget \<Rightarrow> ChatPromptWidget" where
  "action_button_clicked_clear_conversation s = emit (ClearHistory None) s"

definition action_button_clicked_send :: "Env \<Rightarrow> ChatPromptWidget \<Rightarrow> ChatPromptWidget" where
  "action_button_clicked_send E s = do_generate E s None"

definition on_hear_signal :: "Env \<Rightarrow> ChatPromptWidget \<Rightarrow> string \<Rightarrow> ChatPromptWidget" where
  "on_hear_signal E s transcription = do_generate E (s\<lparr>prompt := transcription\<rparr>) None"

text \<open>\<open>handle_key_press\<close>: the arguments say whether the key is Return and whether the
  modifiers are exactly Shift. The original key handler of the text field is Qt's.\<close>

definition handle_key_press :: "Env \<Rightarrow> ChatPromptWidget \<Rightarrow> bool \<Rightarrow> bool \<Rightarrow> ChatPromptWidget" where
  "handle_key_press E s key_return shift =
     (if key_return \<and> \<not> disabled s \<and> \<not> shift then do_generate E s None else s)"

definition llm_action_changed :: "ChatPromptWidget \<Rightarrow> string \<Rightarrow> ChatPromptWidget" where
  "llm_action_changed s val =
     s\<lparr>llm_action :=
         (if val = ''Chat'' then CHAT
          else if val = ''Image'' then GENERATE_IMAGE
          else if val = ''RAG'' then PERFORM_RAG_SEARCH
          else if val = ''Auto'' then APPLICATION_COMMAND
          else APPLICATION_COMMAND)\<rparr>"

definition hide_action_menu :: "ChatPromptWidget \<Rightarrow> ChatPromptWidget" where
  "hide_action_menu s = s\<lparr>action_menu_displayed := Some False\<rparr>"

definition display_action_menu :: "ChatPromptWidget \<Rightarrow> ChatPromptWidget" where
  "display_action_menu s = s\<lparr>action_menu_displayed := Some True\<rparr>"

section \<open>Observations and drivers\<close>

text \<open>The \<open>MessageWidget\<close>s of the layout, in display order: the entries of the view.\<close>

fun message_widgets :: "layout_item list \<Rightarrow> MessageWidget list" where
  "message_widgets [] = []"
| "message_widgets (MessageItem w # items) = w # message_widgets items"
| "message_widgets (SpacerItem # items) = message_widgets items"
| "message_widgets (OtherItem # items) = message_widgets items"

text \<open>The logged calls of \<open>api.llm.send_request\<close>, in order.\<close>

fun is_send :: "logged \<Rightarrow> bool" where
  "is_send (Logged (SendRequest p a) g h) = True"
| "is_send (Logged e g h) = False"

definition sends :: "ChatPromptWidget \<Rightarrow> logged list" where
  "sends s = filter is_send (effects s)"

text \<open>The signal \<open>LLM_TEXT_STREAMED_SIGNAL\<close> delivered once for each response of a list,
  each in a dictionary with the key \<open>response\<close>.\<close>

fun receive_all :: "Env \<Rightarrow> ChatPromptWidget \<Rightarrow> LLMResponse list \<Rightarrow> ChatPromptWidget" where
  "receive_all E s [] = s"
| "receive_all E s (r # rs) =
     receive_all E (snd (on_add_bot_message_to_conversation E s [''response'' \<mapsto> PResponse r])) rs"

text \<open>The four operations of the generation session.\<close>

datatype session_op =
    DoGenerate "string option"
  | InterruptButtonClicked
  | EnableGenerate
  | OnAddBotMessage pydict

fun run_op :: "Env \<Rightarrow> ChatPromptWidget \<Rightarrow> session_op \<Rightarrow> ChatPromptWidget" where
  "run_op E s (DoGenerate p) = do_generate E s p"
| "run_op E s InterruptButtonClicked = interrupt_button_clicked s"
| "run_op E s EnableGenerate = enable_generate E s"
| "run_op E s (OnAddBotMessage data) = snd (on_add_bot_message_to_conversation E s data)"

fun run_ops :: "Env \<Rightarrow> ChatPromptWidget \<Rightarrow> session_op list \<Rightarrow> ChatPromptWidget" where
  "run_ops E s [] = s"
| "run_ops E s (op # ops) = run_ops E (run_op E s op) ops"

text \<open>The states the widget can be in: the state after construction, and the state after
  any method or signal handler, whatever the collaborators answer. In \<open>r_text\<close> the user
  edits the text field and Qt calls \<open>prompt_text_changed\<close>. The methods without a rule
  (\<open>showEvent\<close>, \<open>resizeEvent\<close>, \<open>scroll_to_bottom\<close>, \<open>load_conversation\<close> and the
  other ones that only talk to Qt objects or to the worker queue) assign none of the
  fields of the record but \<open>ui_prompt\<close>.\<close>

inductive reachable :: "ChatPromptWidget \<Rightarrow> bool" where
  r_init: "is_initial s \<Longrightarrow> reachable s"
| r_load: "reachable s \<Longrightarrow> reachable (on_load_conversation E s ld)"
| r_delete: "reachable s \<Longrightarrow> reachable (snd (on_delete_conversation s dd))"
| r_token: "reachable s \<Longrightarrow> reachable (on_token_signal s val)"
| r_status: "reachable s \<Longrightarrow> reachable (on_model_status_changed_signal s sd)"
| r_chatbot: "reachable s \<Longrightarrow> reachable (on_chatbot_changed s)"
| r_hear: "reachable s \<Longrightarrow> reachable (on_hear_signal E s transcription)"
| r_bot: "reachable s \<Longrightarrow> reachable (snd (on_add_bot_message_to_conversation E s data))"
| r_flush: "reachable s \<Longrightarrow> reachable (flush_token_buffer E s)"
| r_enable: "reachable s \<Longrightarrow> reachable (enable_generate E s)"
| r_clear_button: "reachable s \<Longrightarrow> reachable (action_button_clicked_clear_conversation s)"
| r_clear: "reachable s \<Longrightarrow> reachable (on_clear_conversation s)"
| r_send: "reachable s \<Longrightarrow> reachable (action_button_clicked_send E s)"
| r_interrupt: "reachable s \<Longrightarrow> reachable (interrupt_button_clicked s)"
| r_generate: "reachable s \<Longrightarrow> reachable (do_generate E s p)"
| r_text: "reachable s \<Longrightarrow> reachable (prompt_text_changed (s\<lparr>ui_prompt := t\<rparr>))"
| r_key: "reachable s \<Longrightarrow> reachable (handle_key_press E s key_return shift)"
| r_action: "reachable s \<Longrightarrow> reachable (llm_action_changed s val)"
| r_hide: "reachable s \<Longrightarrow> reachable (hide_action_menu s)"
| r_display: "reachable s \<Longrightarrow> reachable (display_action_menu s)"
| r_add: "reachable s \<Longrightarrow> reachable (fst (add_message_to_conversation E s n m b f))"

section \<open>Concrete inputs\<close>

text \<open>Modelled from the spec: \<open>MessageWidget.update_message\<close>, a method of a class that
  is not in the widget's file, as the spec describes it: the message's content is
  mutated in place, "replacing, not appending, with the newly combined text". It is the
  \<open>update_message\<close> of the concrete environments only.\<close>

definition update_message_replacing :: "MessageWidget \<Rightarrow> string \<Rightarrow> MessageWidget" where
  "update_message_replacing w t = w\<lparr>w_message := t\<rparr>"

definition example_env :: Env where
  "example_env =
     \<lparr>strip_names_from_message = (\<lambda>m u b. m), update_message = update_message_replacing,
      username = ''User'', botname = ''Bot'',
      bot_mood = None, bot_mood_emoji = None, loaded_models = None,
      filter_by_first = (\<lambda>i. None)\<rparr>"

text \<open>An environment whose \<open>strip_names_from_message\<close> removes a leading \<open>username: \<close> or
  \<open>botname: \<close> from the message, one of the functions the parameter stands for.\<close>

definition strip_leading_name :: "string \<Rightarrow> string \<Rightarrow> string \<Rightarrow> string" where
  "strip_leading_name m u b =
     (if take (length u + 2) m = u @ '': '' then drop (length u + 2) m
      else if take (length b + 2) m = b @ '': '' then drop (length b + 2) m
      else m)"

definition stripping_env :: Env where
  "stripping_env = example_env\<lparr>strip_names_from_message := strip_leading_name\<rparr>"

text \<open>An environment whose \<open>update_message\<close> appends the text to the content, another of
  the functions that parameter stands for.\<close>

definition update_message_appending :: "MessageWidget \<Rightarrow> string \<Rightarrow> MessageWidget" where
  "update_message_appending w t = w\<lparr>w_message := w_message w @ t\<rparr>"

definition appending_env :: Env where
  "appending_env = example_env\<lparr>update_message := update_message_appending\<rparr>"

definition new_widget :: ChatPromptWidget where
  "new_widget =
     \<lparr>token_buffer = [], generating = False, prompt = [], chat_loaded = False,
      priv_conversation = None, priv_conversation_id = None, conversation_history = [],
      held_message = None, disabled = False, spacer = False,
      action_menu_displayed = None, llm_action = CHAT, layout = [], ui_prompt = [],
      ui_conversation = [], effects = []\<rparr>"

definition response :: "string \<Rightarrow> LLMResponse" where
  "response t = \<lparr>message = t, node_id = None, is_first_message = False, is_end_of_message = False\<rparr>"

text \<open>A first prompt is submitted, then a second one while the first is generating, then a
  third one.\<close>

definition generating_widget :: ChatPromptWidget where
  "generating_widget = do_generate example_env new_widget (Some ''first'')"

definition held_widget :: ChatPromptWidget where
  "held_widget = do_generate example_env generating_widget (Some ''second'')"

definition busy_held_widget :: ChatPromptWidget where
  "busy_held_widget = do_generate example_env held_widget (Some ''third'')"

text \<open>The user types \<open>hello\<close> and sends it; the answer arrives as two tokens and is flushed;
  then the whole answer arrives once more and is flushed again.\<close>

definition typed_widget :: ChatPromptWidget where
  "typed_widget = prompt_text_changed (new_widget\<lparr>ui_prompt := ''hello''\<rparr>)"

definition asked_widget :: ChatPromptWidget where
  "asked_widget = do_generate example_env typed_widget None"

definition streamed_widget :: ChatPromptWidget where
  "streamed_widget =
     flush_token_buffer example_env
       (receive_all example_env asked_widget [response ''Hi'', response '' there''])"

definition restreamed_widget :: ChatPromptWidget where
  "restreamed_widget = receive_all example_env streamed_widget [response ''Hi there'']"

definition reflushed_widget :: ChatPromptWidget where
  "reflushed_widget = flush_token_buffer example_env restreamed_widget"

text \<open>A conversation of two messages is loaded into the new widget.\<close>

definition two_messages :: load_data where
  "two_messages =
     \<lparr>ld_conversation_id = Some 1,
      ld_messages = [\<lparr>m_name = ''User'', m_content = ''hello'', m_is_bot = False\<rparr>,
                     \<lparr>m_name = ''Bot'', m_content = ''Hi there'', m_is_bot = True\<rparr>]\<rparr>"

definition loaded_widget :: ChatPromptWidget where
  "loaded_widget = on_load_conversation example_env new_widget two_messages"

text \<open>What holds in every state the widget can be in: the history list is empty and a held
  prompt is never the empty string.\<close>

definition session_inv :: "ChatPromptWidget \<Rightarrow> bool" where
  "session_inv s \<longleftrightarrow> conversation_history s = [] \<and> held_message s \<noteq> Some []"

section \<open>Frame lemmas\<close>

lemmas button_defs = emit_def start_progress_bar_def stop_progress_bar_def disable_send_button_def
  enable_send_button_def clear_prompt_def interrupt_button_clicked_def

lemma sends_update:
  "sends (s\<lparr>effects := effects t @ ys\<rparr>) = sends t @ filter is_send ys"
  "sends (s\<lparr>generating := g\<rparr>) = sends s"
  "sends (s\<lparr>held_message := h\<rparr>) = sends s"
  "sends (s\<lparr>ui_prompt := u\<rparr>) = sends s"
  "sends (s\<lparr>disabled := d\<rparr>) = sends s"
  "sends (s\<lparr>token_buffer := b\<rparr>) = sends s"
  by (simp_all add: sends_def)

lemma append_message_frame:
  "token_buffer (fst (append_message E s n m b)) = token_buffer s"
  "generating (fst (append_message E s n m b)) = generating s"
  "held_message (fst (append_message E s n m b)) = held_message s"
  "conversation_history (fst (append_message E s n m b)) = conversation_history s"
  "prompt (fst (append_message E s n m b)) = prompt s"
  "llm_action (fst (append_message E s n m b)) = llm_action s"
  "sends (fst (append_message E s n m b)) = sends s"
  by (simp_all add: append_message_def remove_spacer_def add_spacer_def emit_def sends_def Let_def)

lemma add_message_frame:
  "token_buffer (fst (add_message_to_conversation E s n m b f)) = token_buffer s"
  "generating (fst (add_message_to_conversation E s n m b f)) = generating s"
  "held_message (fst (add_message_to_conversation E s n m b f)) = held_message s"
  "conversation_history (fst (add_message_to_conversation E s n m b f)) = conversation_history s"
  "prompt (fst (add_message_to_conversation E s n m b f)) = prompt s"
  "llm_action (fst (add_message_to_conversation E s n m b f)) = llm_action s"
  "sends (fst (add_message_to_conversation E s n m b f)) = sends s"
  by (simp_all add: add_message_to_conversation_def append_message_frame emit_def Let_def
      split: option.splits prod.splits) (simp add: sends_def)

lemma do_generate_frame:
  "token_buffer (do_generate E s p) = token_buffer s"
  "conversation_history (do_generate E s p) = conversation_history s"
  by (simp_all add: do_generate_def button_defs Let_def add_message_frame split_def
      split: option.splits)

lemma do_generate_hold:
  assumes "generating s" "p \<noteq> []"
  shows "sends (do_generate E s (Some p)) = sends s"
    and "held_message (do_generate E s (Some p)) =
           (case held_message s of None \<Rightarrow> Some p | Some h \<Rightarrow> Some h)"
  using assms
  by (simp_all add: do_generate_def button_defs Let_def sends_def split: option.splits)

lemma do_generate_start:
  assumes "\<not> generating s" "p \<noteq> []"
  shows "sends (do_generate E s (Some p)) =
           sends s @ [Logged (SendRequest p (llm_action s)) True (held_message s)]"
    and "held_message (do_generate E s (Some p)) = held_message s"
    and "generating (do_generate E s (Some p))"
  using assms
  by (simp_all add: do_generate_def button_defs Let_def add_message_frame split_def sends_update
      split: option.splits)

lemma enable_generate_held:
  assumes "held_message s = Some h" "h \<noteq> []"
  shows "sends (enable_generate E s) =
           sends s @ [Logged (SendRequest h (llm_action s)) True (Some h)]"
    and "held_message (enable_generate E s) = None"
    and "generating (enable_generate E s)"
  using assms do_generate_start [of "s\<lparr>generating := False\<rparr>" h E]
  by (simp_all add: enable_generate_def enable_send_button_def emit_def sends_update Let_def)

lemma enable_generate_buffer: "token_buffer (enable_generate E s) = token_buffer s"
  by (simp add: enable_generate_def button_defs Let_def do_generate_frame split: option.splits)

lemma on_add_bot_buffer:
  "node_id r = None \<Longrightarrow>
     token_buffer (snd (on_add_bot_message_to_conversation E s [''response'' \<mapsto> PResponse r])) =
       token_buffer s @ [message r]"
  by (simp add: on_add_bot_message_to_conversation_def Let_def enable_generate_buffer button_defs)

lemma receive_all_buffer:
  "\<forall>r\<in>set rs. node_id r = None \<Longrightarrow>
     token_buffer (receive_all E s rs) = token_buffer s @ map message rs"
  by (induction rs arbitrary: s) (simp_all add: on_add_bot_buffer)

lemma flush_buffer: "token_buffer (flush_token_buffer E s) = []"
  by (simp add: flush_token_buffer_def drain_def Let_def add_message_frame)

lemma flush_empty: "token_buffer s = [] \<Longrightarrow> flush_token_buffer E s = s"
  by (simp add: flush_token_buffer_def drain_def Let_def)

lemma take_all_empty: "take_all items = []"
  by (induction items) simp_all

section \<open>The backward search and the entries of the view\<close>

lemma find_message_widget_Some:
  "find_message_widget items n = Some (i, w) \<Longrightarrow> i < n \<and> items ! i = MessageItem w"
  by (induction items n rule: find_message_widget.induct) (auto split: layout_item.splits)

lemma find_message_widget_append:
  "n \<le> length xs \<Longrightarrow> find_message_widget (xs @ ys) n = find_message_widget xs n"
  by (induction xs n rule: find_message_widget.induct)
    (auto simp: nth_append split: layout_item.splits)

lemma message_widgets_append:
  "message_widgets (xs @ ys) = message_widgets xs @ message_widgets ys"
  by (induction xs rule: message_widgets.induct) auto

lemma message_widgets_remove1_spacer:
  "message_widgets (remove1 SpacerItem items) = message_widgets items"
  by (induction items rule: message_widgets.induct) auto

lemma find_message_widget_None:
  "find_message_widget items (length items) = None \<longleftrightarrow> message_widgets items = []"
proof (induction items rule: rev_induct)
  case Nil
  show ?case by simp
next
  case (snoc x xs)
  then show ?case
    by (cases x) (simp_all add: find_message_widget_append message_widgets_append)
qed

lemma find_message_widget_last:
  "find_message_widget items (length items) = Some (i, w) \<Longrightarrow>
     message_widgets items \<noteq> [] \<and> w = last (message_widgets items) \<and>
     message_widgets (items[i := MessageItem w']) = butlast (message_widgets items) @ [w']"
proof (induction items rule: rev_induct)
  case Nil
  then show ?case by simp
next
  case (snoc x xs)
  show ?case
  proof (cases x)
    case (MessageItem v)
    with snoc.prems show ?thesis
      by (auto simp add: find_message_widget_append message_widgets_append)
  next
    case SpacerItem
    with snoc.prems have f: "find_message_widget xs (length xs) = Some (i, w)"
      by (simp add: find_message_widget_append)
    then have "i < length xs" by (simp add: find_message_widget_Some)
    with snoc.IH [OF f] SpacerItem show ?thesis
      by (simp add: message_widgets_append list_update_append)
  next
    case OtherItem
    with snoc.prems have f: "find_message_widget xs (length xs) = Some (i, w)"
      by (simp add: find_message_widget_append)
    then have "i < length xs" by (simp add: find_message_widget_Some)
    with snoc.IH [OF f] OtherItem show ?thesis
      by (simp add: message_widgets_append list_update_append)
  qed
qed

lemma find_message_widget_exists:
  assumes "message_widgets items \<noteq> []"
  obtains i where "find_message_widget items (length items) = Some (i, last (message_widgets items))"
proof -
  from assms obtain i w where f: "find_message_widget items (length items) = Some (i, w)"
    using find_message_widget_None [of items]
    by (cases "find_message_widget items (length items)") auto
  with find_message_widget_last [OF f] that show thesis by simp
qed

lemma append_message_entries:
  assumes "msg \<noteq> []"
  shows "\<exists>w. snd (append_message E s n msg b) = Some w \<and>
           message_widgets (layout (fst (append_message E s n msg b))) =
             message_widgets (layout s) @ [w] \<and>
           w_message w = msg \<and> w_is_bot w = b \<and> w_name w = n"
  using assms
  by (simp add: append_message_def remove_spacer_def add_spacer_def emit_def Let_def
      message_widgets_append message_widgets_remove1_spacer)

section \<open>An invariant of the reachable states\<close>

lemma session_inv_add_message:
  "session_inv s \<Longrightarrow> session_inv (fst (add_message_to_conversation E s n m b f))"
  by (simp add: session_inv_def add_message_frame)

lemma session_inv_do_generate: "session_inv s \<Longrightarrow> session_inv (do_generate E s p)"
  by (simp add: session_inv_def do_generate_def button_defs Let_def add_message_frame split_def
      split: option.splits)

lemma session_inv_enable_generate: "session_inv s \<Longrightarrow> session_inv (enable_generate E s)"
  by (simp add: session_inv_def enable_generate_def button_defs Let_def do_generate_frame
      split: option.splits)

lemma session_inv_on_add_bot:
  assumes "session_inv s"
  shows "session_inv (snd (on_add_bot_message_to_conversation E s data))"
proof -
  have a: "session_inv (t\<lparr>token_buffer := token_buffer t @ [x]\<rparr>) = session_inv t" for t x
    by (simp add: session_inv_def)
  have b: "session_inv (stop_progress_bar t) = session_inv t" for t
    by (simp add: session_inv_def button_defs)
  show ?thesis using assms
    by (simp add: on_add_bot_message_to_conversation_def Let_def a b session_inv_enable_generate
        split: option.splits pyval.splits)
qed

lemma session_inv_clear: "session_inv s \<Longrightarrow> session_inv (clear_conversation s k)"
  by (simp add: session_inv_def clear_conversation_def clear_conversation_widgets_def emit_def
      Let_def)

lemma session_inv_set_widgets:
  "session_inv s \<Longrightarrow> session_inv (set_conversation_widgets E s ms)"
  by (induction ms arbitrary: s) (simp_all add: session_inv_add_message)

lemma session_inv_load:
  assumes "session_inv s"
  shows "session_inv (on_load_conversation E s ld)"
proof -
  have e: "session_inv (emit x t) = session_inv t" for t x
    by (simp add: session_inv_def emit_def)
  have c: "session_inv (set_conversation_id E t v) = session_inv t" for t v
    by (simp add: session_inv_def set_conversation_id_def Let_def split: option.splits)
  have d: "session_inv (set_conversation t v) = session_inv t" for t v
    by (simp add: session_inv_def set_conversation_def)
  show ?thesis using assms
    by (simp add: on_load_conversation_def Let_def e c d session_inv_clear
        session_inv_set_widgets split: option.splits)
qed

lemma session_inv_flush: "session_inv s \<Longrightarrow> session_inv (flush_token_buffer E s)"
  by (simp add: session_inv_def flush_token_buffer_def drain_def Let_def add_message_frame)

lemma session_inv_reachable: "reachable s \<Longrightarrow> session_inv s"
proof (induction rule: reachable.induct)
  case (r_init s)
  then show ?case by (simp add: is_initial_def session_inv_def)
next
  case (r_load s E ld)
  then show ?case by (simp add: session_inv_load)
next
  case (r_delete s dd)
  then show ?case
    by (simp add: session_inv_def on_delete_conversation_def set_conversation_def
        clear_conversation_widgets_def emit_def Let_def split: option.splits)
next
  case (r_token s val)
  then show ?case
    by (simp add: session_inv_def on_token_signal_def handle_token_signal_def button_defs)
next
  case (r_status s sd)
  then show ?case
    by (simp add: session_inv_def on_model_status_changed_signal_def button_defs Let_def)
next
  case (r_chatbot s)
  then show ?case
    by (simp add: session_inv_def on_chatbot_changed_def clear_conversation_def
        clear_conversation_widgets_def emit_def Let_def)
next
  case (r_hear s E transcription)
  then have "session_inv (s\<lparr>prompt := transcription\<rparr>)" by (simp add: session_inv_def)
  then show ?case unfolding on_hear_signal_def by (rule session_inv_do_generate)
next
  case (r_bot s E data)
  then show ?case by (simp add: session_inv_on_add_bot)
next
  case (r_flush s E)
  then show ?case by (simp add: session_inv_flush)
next
  case (r_enable s E)
  then show ?case by (simp add: session_inv_enable_generate)
next
  case (r_clear_button s)
  then show ?case
    by (simp add: session_inv_def action_button_clicked_clear_conversation_def emit_def)
next
  case (r_clear s)
  then show ?case by (simp add: on_clear_conversation_def session_inv_clear)
next
  case (r_send s E)
  then show ?case by (simp add: action_button_clicked_send_def session_inv_do_generate)
next
  case (r_interrupt s)
  then show ?case by (simp add: session_inv_def button_defs)
next
  case (r_generate s E p)
  then show ?case by (simp add: session_inv_do_generate)
next
  case (r_text s t)
  then show ?case by (simp add: session_inv_def prompt_text_changed_def)
next
  case (r_key s E key_return shift)
  then show ?case by (simp add: handle_key_press_def session_inv_do_generate)
next
  case (r_action s val)
  then show ?case by (simp add: session_inv_def llm_action_changed_def)
next
  case (r_hide s)
  then show ?case by (simp add: session_inv_def hide_action_menu_def)
next
  case (r_display s)
  then show ?case by (simp add: session_inv_def display_action_menu_def)
next
  case (r_add s E n m b f)
  then show ?case by (simp add: session_inv_add_message)
qed

section \<open>The concrete inputs, evaluated\<close>

lemmas widget_defs = do_generate_def enable_generate_def add_message_to_conversation_def
  append_message_def remove_spacer_def add_spacer_def flush_token_buffer_def drain_def
  on_add_bot_message_to_conversation_def on_load_conversation_def set_conversation_id_def
  set_conversation_def clear_conversation_def clear_conversation_widgets_def
  prompt_text_changed_def update_message_replacing_def lstrip_def is_space_def response_def button_defs
  Let_def split_def

lemma new_widget_initial: "is_initial new_widget"
  by (simp add: is_initial_def new_widget_def)

lemma generating_widget_eq:
  "generating_widget =
     new_widget\<lparr>generating := True, spacer := True, layout := [SpacerItem],
       effects := [Logged ProgressStart True None,
                   Logged (SendRequest ''first'' CHAT) True None]\<rparr>"
  by (simp add: generating_widget_def widget_defs example_env_def new_widget_def)

lemma held_widget_eq:
  "held_widget =
     new_widget\<lparr>held_message := Some ''second'', spacer := True, layout := [SpacerItem],
       effects := [Logged ProgressStart True None,
                   Logged (SendRequest ''first'' CHAT) True None,
                   Logged Interrupt True (Some ''second''),
                   Logged ProgressStop True (Some ''second''),
                   Logged SendButtonEnabled False (Some ''second'')]\<rparr>"
  by (simp add: held_widget_def generating_widget_eq widget_defs example_env_def new_widget_def)

lemma busy_held_widget_eq:
  "busy_held_widget =
     new_widget\<lparr>generating := True, held_message := Some ''second'', spacer := True,
       layout := [SpacerItem],
       effects := [Logged ProgressStart True None,
                   Logged (SendRequest ''first'' CHAT) True None,
                   Logged Interrupt True (Some ''second''),
                   Logged ProgressStop True (Some ''second''),
                   Logged SendButtonEnabled False (Some ''second''),
                   Logged ProgressStart True (Some ''second''),
                   Logged (SendRequest ''third'' CHAT) True (Some ''second'')]\<rparr>"
  by (simp add: busy_held_widget_def held_widget_eq widget_defs example_env_def new_widget_def)

lemma reachable_generating_widget: "reachable generating_widget"
  unfolding generating_widget_def by (intro reachable.r_generate reachable.r_init new_widget_initial)

lemma reachable_held_widget: "reachable held_widget"
  unfolding held_widget_def by (intro reachable.r_generate reachable_generating_widget)

lemma reachable_busy_held_widget: "reachable busy_held_widget"
  unfolding busy_held_widget_def by (intro reachable.r_generate reachable_held_widget)

lemma typed_widget_eq: "typed_widget = new_widget\<lparr>prompt := ''hello'', ui_prompt := ''hello''\<rparr>"
  by (simp add: typed_widget_def prompt_text_changed_def)

lemma reachable_typed_widget: "reachable typed_widget"
  unfolding typed_widget_def by (intro reachable.r_text reachable.r_init new_widget_initial)

lemma reachable_asked_widget: "reachable asked_widget"
  unfolding asked_widget_def by (intro reachable.r_generate reachable_typed_widget)

lemma reachable_receive_all: "reachable s \<Longrightarrow> reachable (receive_all E s rs)"
  by (induction rs arbitrary: s) (simp_all add: reachable.r_bot)

lemma reachable_streamed_widget: "reachable streamed_widget"
  unfolding streamed_widget_def
  by (intro reachable.r_flush reachable_receive_all reachable_asked_widget)

lemma reachable_restreamed_widget: "reachable restreamed_widget"
  unfolding restreamed_widget_def by (intro reachable_receive_all reachable_streamed_widget)

lemma asked_widget_buffer: "token_buffer asked_widget = []"
  by (simp add: asked_widget_def do_generate_frame typed_widget_eq new_widget_def)

lemma on_add_bot_token:
  "token_buffer (snd (on_add_bot_message_to_conversation E s [''response'' \<mapsto> PResponse (response t)])) =
     token_buffer s @ [t]"
  by (simp add: on_add_bot_message_to_conversation_def response_def Let_def)

lemma restreamed_widget_buffer: "token_buffer restreamed_widget = [''Hi there'']"
  by (simp add: restreamed_widget_def streamed_widget_def on_add_bot_token flush_buffer)

lemma asked_widget_layout:
  "layout asked_widget =
     [MessageItem \<lparr>w_name = ''User'', w_message = ''hello'', w_is_bot = False, w_message_id = 0,
        w_conversation_id = None, w_mood = None, w_mood_emoji = None\<rparr>,
      SpacerItem]"
  by (simp add: asked_widget_def typed_widget_eq widget_defs conversation_id_def example_env_def
      new_widget_def)

lemma on_add_bot_layout:
  "layout (snd (on_add_bot_message_to_conversation E s [''response'' \<mapsto> PResponse (response t)])) =
     layout s"
  by (simp add: on_add_bot_message_to_conversation_def response_def Let_def)

lemma on_add_bot_history:
  "conversation_history
     (snd (on_add_bot_message_to_conversation E s [''response'' \<mapsto> PResponse (response t)])) =
     conversation_history s"
  by (simp add: on_add_bot_message_to_conversation_def response_def Let_def)

lemma on_add_bot_effects:
  "effects (snd (on_add_bot_message_to_conversation E s [''response'' \<mapsto> PResponse (response t)])) =
     effects s"
  by (simp add: on_add_bot_message_to_conversation_def response_def Let_def)

lemma streamed_widget_layout:
  "layout streamed_widget =
     [MessageItem \<lparr>w_name = ''User'', w_message = ''hello'', w_is_bot = False, w_message_id = 0,
        w_conversation_id = None, w_mood = None, w_mood_emoji = None\<rparr>,
      MessageItem \<lparr>w_name = ''Bot'', w_message = ''Hi there'', w_is_bot = True, w_message_id = 0,
        w_conversation_id = None, w_mood = None, w_mood_emoji = None\<rparr>,
      SpacerItem]"
proof -
  define t where "t = receive_all example_env asked_widget [response ''Hi'', response '' there'']"
  have b: "token_buffer t = [''Hi'', '' there'']"
    unfolding t_def by (simp add: on_add_bot_token asked_widget_buffer)
  have l: "layout t = layout asked_widget"
    unfolding t_def by (simp add: on_add_bot_layout)
  have h: "conversation_history t = []"
    unfolding t_def
    by (simp add: on_add_bot_history asked_widget_def do_generate_frame typed_widget_eq
        new_widget_def)
  have c: "conversation_id t = None"
    unfolding t_def
    by (simp add: conversation_id_def on_add_bot_message_to_conversation_def response_def Let_def
        asked_widget_def typed_widget_eq widget_defs example_env_def new_widget_def)
  have sp: "spacer t"
    unfolding t_def
    by (simp add: on_add_bot_message_to_conversation_def response_def Let_def
        asked_widget_def typed_widget_eq widget_defs example_env_def new_widget_def)
  have "layout (flush_token_buffer example_env t) =
     [MessageItem \<lparr>w_name = ''User'', w_message = ''hello'', w_is_bot = False, w_message_id = 0,
        w_conversation_id = None, w_mood = None, w_mood_emoji = None\<rparr>,
      MessageItem \<lparr>w_name = ''Bot'', w_message = ''Hi there'', w_is_bot = True, w_message_id = 0,
        w_conversation_id = None, w_mood = None, w_mood_emoji = None\<rparr>,
      SpacerItem]"
    by (simp add: flush_token_buffer_def drain_def add_message_to_conversation_def
        append_message_def remove_spacer_def add_spacer_def emit_def Let_def
        b l h c [unfolded conversation_id_def] sp asked_widget_layout example_env_def
        conversation_id_def)
  then show ?thesis unfolding streamed_widget_def t_def .
qed

lemma restreamed_widget_layout: "layout restreamed_widget = layout streamed_widget"
  by (simp add: restreamed_widget_def on_add_bot_layout)

lemma loaded_widget_eq:
  "loaded_widget =
     new_widget\<lparr>priv_conversation_id := Some 1, spacer := True,
       layout :=
         [MessageItem \<lparr>w_name = ''User'', w_message = ''hello'', w_is_bot = False,
            w_message_id = 0, w_conversation_id = Some 1, w_mood = None, w_mood_emoji = None\<rparr>,
          MessageItem \<lparr>w_name = ''Bot'', w_message = ''Hi there'', w_is_bot = True,
            w_message_id = 0, w_conversation_id = Some 1, w_mood = None, w_mood_emoji = None\<rparr>,
          SpacerItem],
       effects := [Logged (ClearHistory (Some 1)) False None,
                   Logged (ScheduleScroll 0) False None,
                   Logged (ScheduleScroll 0) False None,
                   Logged (ScheduleScroll 100) False None]\<rparr>"
  by (simp add: loaded_widget_def two_messages_def widget_defs conversation_id_def
      example_env_def new_widget_def)

lemma reachable_loaded_widget: "reachable loaded_widget"
  unfolding loaded_widget_def by (intro reachable.r_load reachable.r_init new_widget_initial)

section \<open>The generation session\<close>

text \<open>
  C1, as amended. The claim reads: in every state reached from the initial state by
  \<open>do_generate\<close>, \<open>interrupt_button_clicked\<close>, \<open>enable_generate\<close> and
  \<open>on_add_bot_message_to_conversation\<close>, a held message implies \<open>generating\<close>. That fails,
  because the call of \<open>do_generate\<close> that stores the held message goes on to
  \<open>interrupt_button_clicked\<close>, which resets \<open>generating\<close>. What holds is the statement
  about the transition: whichever of the four operations runs, \<open>held_message\<close> goes
  from \<open>None\<close> to a prompt only in a call of \<open>do_generate\<close> that starts while
  \<open>generating\<close> is True, and that call leaves \<open>generating\<close> False.
\<close>

theorem held_message_set_only_while_generating:
  assumes "held_message s = None" and "held_message (run_op E s op) \<noteq> None"
  shows "generating s \<and> (\<exists>p. op = DoGenerate p) \<and> \<not> generating (run_op E s op)"
proof (cases op)
  case (DoGenerate p)
  with assms show ?thesis
    by (simp add: do_generate_def button_defs Let_def add_message_frame split_def
        split: option.splits if_splits)
next
  case InterruptButtonClicked
  with assms show ?thesis by (simp add: button_defs)
next
  case EnableGenerate
  with assms show ?thesis by (simp add: enable_generate_def button_defs Let_def)
next
  case (OnAddBotMessage data)
  with assms show ?thesis
    by (simp add: on_add_bot_message_to_conversation_def enable_generate_def button_defs Let_def
        split: option.splits pyval.splits if_splits)
qed

text \<open>
  C1, witness: the first prompt is generating and nothing is held; submitting the second
  prompt sets the held message and ends with \<open>generating\<close> False.
\<close>

theorem held_message_set_only_while_generating_witness:
  "held_message generating_widget = None \<and>
   held_message (run_op example_env generating_widget (DoGenerate (Some ''second''))) \<noteq> None \<and>
   generating generating_widget \<and>
   \<not> generating (run_op example_env generating_widget (DoGenerate (Some ''second'')))"
proof -
  have r: "run_op example_env generating_widget (DoGenerate (Some ''second'')) = held_widget"
    by (simp add: held_widget_def)
  have h1: "held_message generating_widget = None"
    by (simp add: generating_widget_eq new_widget_def)
  have h2: "held_message (run_op example_env generating_widget (DoGenerate (Some ''second''))) \<noteq> None"
    by (simp only: r) (simp add: held_widget_eq)
  from held_message_set_only_while_generating [OF h1 h2] h1 h2 show ?thesis
    by blast
qed

text \<open>
  C1, counterexample: from the state after construction, two calls of \<open>do_generate\<close> reach
  a state in which a message is held and \<open>generating\<close> is False.
\<close>

theorem held_message_without_generating:
  "is_initial new_widget \<and>
   held_message (run_ops example_env new_widget
                   [DoGenerate (Some ''first''), DoGenerate (Some ''second'')]) = Some ''second'' \<and>
   \<not> generating (run_ops example_env new_widget
                    [DoGenerate (Some ''first''), DoGenerate (Some ''second'')])"
proof -
  have "run_ops example_env new_widget
          [DoGenerate (Some ''first''), DoGenerate (Some ''second'')] = held_widget"
    by (simp add: held_widget_def generating_widget_def)
  then show ?thesis
    by (simp add: held_widget_eq new_widget_initial) (simp add: new_widget_def)
qed

text \<open>
  C2, as amended. A call \<open>do_generate(prompt2)\<close> with a non-empty \<open>prompt2\<close> while
  \<open>generating\<close> is True issues no \<open>send_request\<close>. It stores \<open>prompt2\<close> as the held
  message only when no message is held; a message that is already held is kept (the
  first one wins, the later one is dropped).
\<close>

theorem do_generate_while_generating_keeps_first:
  assumes "generating s" and "prompt2 \<noteq> []"
  shows "sends (do_generate E s (Some prompt2)) = sends s \<and>
         held_message (do_generate E s (Some prompt2)) =
           (case held_message s of None \<Rightarrow> Some prompt2 | Some h \<Rightarrow> Some h)"
  using do_generate_hold [OF assms] by simp

text \<open>
  C2, witness: while the first prompt is generating and nothing is held, the second
  prompt is stored and nothing is sent.
\<close>

theorem do_generate_while_generating_keeps_first_witness:
  "generating generating_widget \<and> ''second'' \<noteq> [] \<and>
   sends (do_generate example_env generating_widget (Some ''second'')) = sends generating_widget \<and>
   held_message (do_generate example_env generating_widget (Some ''second'')) = Some ''second''"
proof -
  have g: "generating generating_widget"
    by (simp add: generating_widget_eq)
  have n: "''second'' \<noteq> []" by simp
  have h: "held_message generating_widget = None"
    by (simp add: generating_widget_eq new_widget_def)
  from do_generate_while_generating_keeps_first [OF g n, of example_env] g h show ?thesis
    by simp
qed

text \<open>
  C2, counterexample: \<open>second\<close> is held and \<open>third\<close> is generating; submitting \<open>fourth\<close>
  leaves \<open>second\<close> held.
\<close>

theorem held_message_not_overwritten:
  "generating busy_held_widget \<and> ''fourth'' \<noteq> [] \<and>
   held_message busy_held_widget = Some ''second'' \<and>
   held_message (do_generate example_env busy_held_widget (Some ''fourth'')) = Some ''second'' \<and>
   held_message (do_generate example_env busy_held_widget (Some ''fourth'')) \<noteq> Some ''fourth''"
proof -
  have g: "generating busy_held_widget" by (simp add: busy_held_widget_eq)
  have h: "held_message busy_held_widget = Some ''second''" by (simp add: busy_held_widget_eq)
  have n: "''fourth'' \<noteq> []" by simp
  from do_generate_hold(2) [OF g n, of example_env] g h show ?thesis by simp
qed

text \<open>
  C3, as amended. When \<open>enable_generate\<close> runs in a reachable state that holds a prompt,
  exactly one \<open>send_request\<close> is issued, with the held prompt, and \<open>held_message\<close> is
  \<open>None\<close> afterwards. The held prompt is cleared after the re-submission, not before:
  when \<open>send_request\<close> is called, \<open>held_message\<close> still is the held prompt (and
  \<open>generating\<close> is True again).
\<close>

theorem enable_generate_resubmits_held:
  assumes "reachable s" and "held_message s = Some h"
  shows "sends (enable_generate E s) =
           sends s @ [Logged (SendRequest h (llm_action s)) True (Some h)] \<and>
         held_message (enable_generate E s) = None"
proof -
  from session_inv_reachable [OF assms(1)] assms(2) have "h \<noteq> []"
    by (auto simp add: session_inv_def)
  with enable_generate_held [OF assms(2)] show ?thesis by simp
qed

text \<open>
  C3, witness: \<open>second\<close> is held after the first generation was interrupted; the end of
  the message re-submits it.
\<close>

theorem enable_generate_resubmits_held_witness:
  "reachable held_widget \<and> held_message held_widget = Some ''second'' \<and>
   sends (enable_generate example_env held_widget) =
     sends held_widget @ [Logged (SendRequest ''second'' CHAT) True (Some ''second'')] \<and>
   held_message (enable_generate example_env held_widget) = None"
proof -
  have h: "held_message held_widget = Some ''second''" by (simp add: held_widget_eq)
  have a: "llm_action held_widget = CHAT" by (simp add: held_widget_eq new_widget_def)
  from enable_generate_resubmits_held [OF reachable_held_widget h, of example_env]
    reachable_held_widget h a
  show ?thesis by simp
qed

text \<open>
  C3, counterexample: at the one \<open>send_request\<close> that \<open>enable_generate\<close> issues for the
  held prompt \<open>second\<close>, \<open>held_message\<close> is not yet \<open>None\<close>.
\<close>

theorem held_message_cleared_after_resubmission:
  "held_message held_widget = Some ''second'' \<and>
   drop (length (sends held_widget)) (sends (enable_generate example_env held_widget)) =
     [Logged (SendRequest ''second'' CHAT) True (Some ''second'')] \<and>
   held_at (last (sends (enable_generate example_env held_widget))) \<noteq> None"
proof -
  have h: "held_message held_widget = Some ''second''" by (simp add: held_widget_eq)
  have a: "llm_action held_widget = CHAT" by (simp add: held_widget_eq new_widget_def)
  have n: "''second'' \<noteq> []" by simp
  from enable_generate_held(1) [OF h n, of example_env] h a show ?thesis by simp
qed

section \<open>The token buffer\<close>

text \<open>
  C7. Starting with an empty token buffer, after the responses \<open>rs\<close> have arrived (each
  one appended by \<open>on_add_bot_message_to_conversation\<close>, none of them belonging to a
  node), a flush drains the concatenation of their messages in arrival order, hands
  that text to \<open>add_message_to_conversation\<close> when it is not empty (the history list
  being empty), and leaves the buffer empty. A second flush with nothing appended in
  between drains the empty string and changes nothing.
\<close>

theorem flush_drains_concatenation:
  assumes "token_buffer s = []" and "\<forall>r\<in>set rs. node_id r = None"
  shows "fst (drain (receive_all E s rs)) = concat (map message rs) \<and>
         token_buffer (snd (drain (receive_all E s rs))) = [] \<and>
         (conversation_history (receive_all E s rs) = [] \<longrightarrow>
            flush_token_buffer E (receive_all E s rs) =
              (if concat (map message rs) = [] then (receive_all E s rs)\<lparr>token_buffer := []\<rparr>
               else fst (add_message_to_conversation E ((receive_all E s rs)\<lparr>token_buffer := []\<rparr>)
                           (botname E) (concat (map message rs)) True False))) \<and>
         token_buffer (flush_token_buffer E (receive_all E s rs)) = [] \<and>
         fst (drain (flush_token_buffer E (receive_all E s rs))) = [] \<and>
         flush_token_buffer E (flush_token_buffer E (receive_all E s rs)) =
           flush_token_buffer E (receive_all E s rs)"
proof -
  have b: "token_buffer (receive_all E s rs) = map message rs"
    using assms by (simp add: receive_all_buffer)
  have f: "conversation_history (receive_all E s rs) = [] \<longrightarrow>
            flush_token_buffer E (receive_all E s rs) =
              (if concat (map message rs) = [] then (receive_all E s rs)\<lparr>token_buffer := []\<rparr>
               else fst (add_message_to_conversation E ((receive_all E s rs)\<lparr>token_buffer := []\<rparr>)
                           (botname E) (concat (map message rs)) True False))"
    by (simp add: flush_token_buffer_def drain_def b Let_def)
  show ?thesis
    using f by (simp add: drain_def b flush_buffer flush_empty)
qed

text \<open>
  C7, witness: after the prompt \<open>hello\<close> was sent, the tokens \<open>Hi\<close> and \<open> there\<close> arrive;
  the flush drains \<open>Hi there\<close>.
\<close>

theorem flush_drains_concatenation_witness:
  "token_buffer asked_widget = [] \<and>
   node_id (response ''Hi'') = None \<and> node_id (response '' there'') = None \<and>
   fst (drain (receive_all example_env asked_widget [response ''Hi'', response '' there''])) =
     ''Hi there'' \<and>
   token_buffer streamed_widget = [] \<and>
   flush_token_buffer example_env streamed_widget = streamed_widget"
proof -
  have n: "\<forall>r\<in>set [response ''Hi'', response '' there'']. node_id r = None"
    by (simp add: response_def)
  from flush_drains_concatenation [OF asked_widget_buffer n, of example_env]
  show ?thesis
    by (simp add: asked_widget_buffer streamed_widget_def response_def)
qed

section \<open>Deleting a conversation\<close>

text \<open>
  C8, as amended. For every call of \<open>on_delete_conversation(data)\<close> whose \<open>data\<close> has the
  key \<open>conversation_id\<close>: if its value equals the active \<open>conversation_id\<close>, or no
  conversation is active, the rendered view is cleared; otherwise the view and every
  other field but the conversation reference are unchanged. In both cases the active
  conversation reference is reset: \<open>conversation\<close> and \<open>conversation_id\<close> are \<open>None\<close>
  afterwards.
\<close>

theorem on_delete_conversation_resets_conversation:
  assumes "data ''conversation_id'' = Some v"
  shows "fst (on_delete_conversation s data) = None \<and>
         (conversation_id s = v \<or> conversation_id s = None \<longrightarrow>
            layout (snd (on_delete_conversation s data)) = []) \<and>
         (conversation_id s \<noteq> v \<and> conversation_id s \<noteq> None \<longrightarrow>
            snd (on_delete_conversation s data) =
              s\<lparr>priv_conversation := None, priv_conversation_id := None\<rparr>) \<and>
         conversation (snd (on_delete_conversation s data)) = None \<and>
         conversation_id (snd (on_delete_conversation s data)) = None"
  using assms
  by (simp add: on_delete_conversation_def set_conversation_def conversation_id_def
      conversation_def clear_conversation_widgets_def emit_def take_all_empty Let_def)

text \<open>
  C8, witness: conversation 1 is loaded. Deleting conversation 1 clears the view;
  deleting conversation 2 leaves the view and resets the conversation reference.
\<close>

theorem on_delete_conversation_resets_conversation_witness:
  "conversation_id loaded_widget = Some 1 \<and>
   layout (snd (on_delete_conversation loaded_widget [''conversation_id'' \<mapsto> Some 1])) = [] \<and>
   snd (on_delete_conversation loaded_widget [''conversation_id'' \<mapsto> Some 2]) =
     loaded_widget\<lparr>priv_conversation := None, priv_conversation_id := None\<rparr> \<and>
   conversation_id (snd (on_delete_conversation loaded_widget [''conversation_id'' \<mapsto> Some 2])) =
     None"
proof -
  have c: "conversation_id loaded_widget = Some 1"
    by (simp add: conversation_id_def loaded_widget_eq)
  have d1: "[''conversation_id'' \<mapsto> Some (1::int)] ''conversation_id'' = Some (Some 1)" by simp
  have d2: "[''conversation_id'' \<mapsto> Some (2::int)] ''conversation_id'' = Some (Some 2)" by simp
  from on_delete_conversation_resets_conversation
      [of "[''conversation_id'' \<mapsto> Some 1]" "Some 1" loaded_widget, OF d1]
    on_delete_conversation_resets_conversation
      [of "[''conversation_id'' \<mapsto> Some 2]" "Some 2" loaded_widget, OF d2] c
  show ?thesis by (simp add: conversation_id_def)
qed

text \<open>
  C8, counterexample: conversation 1 is active and conversation 2 is deleted; the call
  is not a no-op, the active conversation id is \<open>None\<close> afterwards.
\<close>

theorem on_delete_other_conversation_not_noop:
  "conversation_id loaded_widget = Some 1 \<and>
   conversation_id (snd (on_delete_conversation loaded_widget [''conversation_id'' \<mapsto> Some 2])) =
     None \<and>
   snd (on_delete_conversation loaded_widget [''conversation_id'' \<mapsto> Some 2]) \<noteq> loaded_widget"
proof -
  have c: "conversation_id loaded_widget = Some 1"
    by (simp add: conversation_id_def loaded_widget_eq)
  have n: "conversation_id (snd (on_delete_conversation loaded_widget
             [''conversation_id'' \<mapsto> Some 2])) = None"
    by (simp add: on_delete_conversation_def set_conversation_def conversation_id_def
        loaded_widget_eq Let_def)
  from c n have "snd (on_delete_conversation loaded_widget [''conversation_id'' \<mapsto> Some 2])
      \<noteq> loaded_widget"
    by auto
  with c n show ?thesis by simp
qed

section \<open>A message event without a response\<close>

text \<open>
  C9. A call of \<open>on_add_bot_message_to_conversation\<close> whose \<open>data\<close> has no truthy entry
  under \<open>response\<close> (the key is missing, or its value is \<open>None\<close> or another false value)
  raises \<open>ValueError\<close> and leaves the widget, with its token buffer and its session
  state, as it was. A call whose \<open>data\<close> holds a response object does not raise.
\<close>

theorem on_add_bot_message_raises_without_response:
  "(\<not> truthy (case data ''response'' of None \<Rightarrow> PNone | Some v \<Rightarrow> v) \<longrightarrow>
      on_add_bot_message_to_conversation E s data =
        (Some (ValueError ''No LLMResponse object found in data''), s)) \<and>
   (\<forall>r. data ''response'' = Some (PResponse r) \<longrightarrow>
      fst (on_add_bot_message_to_conversation E s data) = None)"
  by (simp add: on_add_bot_message_to_conversation_def Let_def)

text \<open>
  C9, witness: an empty dictionary and a dictionary whose response is \<open>None\<close> raise and
  change nothing; a dictionary with a response does not raise.
\<close>

theorem on_add_bot_message_raises_without_response_witness:
  "on_add_bot_message_to_conversation example_env asked_widget Map.empty =
     (Some (ValueError ''No LLMResponse object found in data''), asked_widget) \<and>
   on_add_bot_message_to_conversation example_env asked_widget [''response'' \<mapsto> PNone] =
     (Some (ValueError ''No LLMResponse object found in data''), asked_widget) \<and>
   fst (on_add_bot_message_to_conversation example_env asked_widget
          [''response'' \<mapsto> PResponse (response ''Hi'')]) = None"
  using on_add_bot_message_raises_without_response [of Map.empty example_env asked_widget]
    on_add_bot_message_raises_without_response [of "[''response'' \<mapsto> PNone]" example_env asked_widget]
    on_add_bot_message_raises_without_response
      [of "[''response'' \<mapsto> PResponse (response ''Hi'')]" example_env asked_widget]
  by simp

section \<open>The history list\<close>

text \<open>
  C10. No operation of the widget appends to \<open>conversation_history\<close>: the list is empty
  in the state after construction and in every state reached from it by the widget's
  methods and signal handlers. So the first disjunct of the de-duplication guard of
  \<open>flush_token_buffer\<close> always holds, and every flush whose combined text is not empty
  calls \<open>add_message_to_conversation\<close> with that text, for the bot, with
  \<open>first_message\<close> False.
\<close>

theorem conversation_history_always_empty:
  assumes "reachable s"
  shows "conversation_history s = [] \<and>
         (concat (token_buffer s) \<noteq> [] \<longrightarrow>
            flush_token_buffer E s =
              fst (add_message_to_conversation E (s\<lparr>token_buffer := []\<rparr>) (botname E)
                     (concat (token_buffer s)) True False))"
  using session_inv_reachable [OF assms]
  by (simp add: session_inv_def flush_token_buffer_def drain_def Let_def)

text \<open>
  C10, witness: the answer \<open>Hi there\<close> has been flushed into the view and arrives once
  more; the history list is empty and the flush calls \<open>add_message_to_conversation\<close>.
\<close>

theorem conversation_history_always_empty_witness:
  "reachable restreamed_widget \<and> conversation_history restreamed_widget = [] \<and>
   concat (token_buffer restreamed_widget) \<noteq> [] \<and>
   flush_token_buffer example_env restreamed_widget =
     fst (add_message_to_conversation example_env (restreamed_widget\<lparr>token_buffer := []\<rparr>)
            ''Bot'' ''Hi there'' True False)"
proof -
  have b: "concat (token_buffer restreamed_widget) = ''Hi there''"
    by (simp add: restreamed_widget_buffer)
  have n: "botname example_env = ''Bot''" by (simp add: example_env_def)
  from conversation_history_always_empty [OF reachable_restreamed_widget, of example_env]
    reachable_restreamed_widget b n
  show ?thesis by simp
qed

section \<open>Updating the view\<close>

lemma add_message_mutates:
  assumes "message_widgets (layout s) \<noteq> []"
    and "w_is_bot (last (message_widgets (layout s)))"
    and "strip_names_from_message E text (username E) (botname E) \<noteq> []"
  shows "message_widgets (layout (fst (add_message_to_conversation E s n text b False))) =
           butlast (message_widgets (layout s)) @
             [update_message E (last (message_widgets (layout s)))
                (strip_names_from_message E text (username E) (botname E))]"
    and "length (layout (fst (add_message_to_conversation E s n text b False))) =
           length (layout s)"
    and "snd (add_message_to_conversation E s n text b False) = None"
    and "effects (fst (add_message_to_conversation E s n text b False)) =
           effects s @
             [Logged (UpdateMessage (strip_names_from_message E text (username E) (botname E)))
                (generating s) (held_message s),
              Logged (ScheduleScroll 0) (generating s) (held_message s)]"
proof -
  from assms(1) obtain i
    where f: "find_message_widget (layout s) (length (layout s)) =
                Some (i, last (message_widgets (layout s)))"
    by (rule find_message_widget_exists)
  note l = find_message_widget_last [OF f]
  show "message_widgets (layout (fst (add_message_to_conversation E s n text b False))) =
           butlast (message_widgets (layout s)) @
             [update_message E (last (message_widgets (layout s)))
                (strip_names_from_message E text (username E) (botname E))]"
    using f assms(2,3) l by (simp add: add_message_to_conversation_def emit_def Let_def)
  show "length (layout (fst (add_message_to_conversation E s n text b False))) =
           length (layout s)"
    using f assms(2,3) by (simp add: add_message_to_conversation_def emit_def Let_def)
  show "snd (add_message_to_conversation E s n text b False) = None"
    using f assms(2,3) by (simp add: add_message_to_conversation_def emit_def Let_def)
  show "effects (fst (add_message_to_conversation E s n text b False)) =
           effects s @
             [Logged (UpdateMessage (strip_names_from_message E text (username E) (botname E)))
                (generating s) (held_message s),
              Logged (ScheduleScroll 0) (generating s) (held_message s)]"
    using f assms(2,3) by (simp add: add_message_to_conversation_def emit_def Let_def)
qed

lemma add_message_appends:
  assumes "message_widgets (layout s) \<noteq> []"
    and "\<not> w_is_bot (last (message_widgets (layout s)))"
    and "strip_names_from_message E text (username E) (botname E) \<noteq> []"
  shows "\<exists>w. snd (add_message_to_conversation E s n text b False) = Some w \<and>
           message_widgets (layout (fst (add_message_to_conversation E s n text b False))) =
             message_widgets (layout s) @ [w] \<and>
           w_message w = strip_names_from_message E text (username E) (botname E) \<and>
           w_is_bot w = b \<and> w_name w = n"
proof -
  from assms(1) obtain i
    where f: "find_message_widget (layout s) (length (layout s)) =
                Some (i, last (message_widgets (layout s)))"
    by (rule find_message_widget_exists)
  have "add_message_to_conversation E s n text b False =
          append_message E s n (strip_names_from_message E text (username E) (botname E)) b"
    using f assms(2) by (simp add: add_message_to_conversation_def)
  then show ?thesis using append_message_entries [OF assms(3)] by simp
qed

lemma append_message_empty:
  "snd (append_message E s n [] b) = None \<and>
   message_widgets (layout (fst (append_message E s n [] b))) = message_widgets (layout s)"
  by (simp add: append_message_def remove_spacer_def add_spacer_def Let_def
      message_widgets_append message_widgets_remove1_spacer)

lemma add_message_empty:
  assumes "strip_names_from_message E text (username E) (botname E) = []"
  shows "snd (add_message_to_conversation E s n text b False) = None \<and>
         message_widgets (layout (fst (add_message_to_conversation E s n text b False))) =
           message_widgets (layout s)"
  using assms
  by (simp add: add_message_to_conversation_def append_message_empty split: option.splits)

lemma streamed_entries:
  "message_widgets (layout streamed_widget) =
     [\<lparr>w_name = ''User'', w_message = ''hello'', w_is_bot = False, w_message_id = 0,
        w_conversation_id = None, w_mood = None, w_mood_emoji = None\<rparr>,
      \<lparr>w_name = ''Bot'', w_message = ''Hi there'', w_is_bot = True, w_message_id = 0,
        w_conversation_id = None, w_mood = None, w_mood_emoji = None\<rparr>]"
  by (simp add: streamed_widget_layout)

lemma asked_entries:
  "message_widgets (layout asked_widget) =
     [\<lparr>w_name = ''User'', w_message = ''hello'', w_is_bot = False, w_message_id = 0,
        w_conversation_id = None, w_mood = None, w_mood_emoji = None\<rparr>]"
  by (simp add: asked_widget_layout)

lemma env_fields:
  "username example_env = ''User''" "botname example_env = ''Bot''"
  "username stripping_env = ''User''" "botname stripping_env = ''Bot''"
  "username appending_env = ''User''" "botname appending_env = ''Bot''"
  "strip_names_from_message example_env = (\<lambda>m u b. m)"
  "strip_names_from_message appending_env = (\<lambda>m u b. m)"
  "strip_names_from_message stripping_env = strip_leading_name"
  "update_message example_env = update_message_replacing"
  "update_message appending_env = update_message_appending"
  by (simp_all add: example_env_def stripping_env_def appending_env_def)

lemma strip_leading_name_bot: "strip_leading_name ''Bot: '' ''User'' ''Bot'' = []"
  by (simp add: strip_leading_name_def)

text \<open>
  C4. The claim reads: a new entry gets as \<open>message_id\<close> the number of entries at the
  time of the append, and the ids of successive appends increase strictly. The code
  removes the spacer from the layout and then still subtracts one from the layout's
  count, so on loading a conversation of two messages into the cleared view both
  entries get the id 0.
\<close>

theorem loaded_messages_share_message_id:
  "map w_message_id (message_widgets (layout loaded_widget)) = [0, 0]"
  by (simp add: loaded_widget_eq)

text \<open>
  C5. The claim reads: when the last bot message already equals the streamed text, a
  second application of that text is a no-op. The code's guard in \<open>flush_token_buffer\<close>
  ("only add if not already last bot message") reads \<open>conversation_history\<close>, which is
  never filled. So with \<open>Hi there\<close> as the last bot message of the view and
  \<open>Hi there\<close> in the buffer again, the history list is empty, the guard lets the flush
  through, and the flush calls \<open>update_message\<close> on the last entry and schedules a
  scroll: it does more than drain the buffer.
\<close>

theorem second_flush_of_same_text_updates_again:
  "w_is_bot (last (message_widgets (layout restreamed_widget))) \<and>
   w_message (last (message_widgets (layout restreamed_widget))) = ''Hi there'' \<and>
   concat (token_buffer restreamed_widget) = ''Hi there'' \<and>
   conversation_history restreamed_widget = [] \<and>
   map eff (drop (length (effects restreamed_widget)) (effects reflushed_widget)) =
     [UpdateMessage ''Hi there'', ScheduleScroll 0] \<and>
   reflushed_widget \<noteq> restreamed_widget\<lparr>token_buffer := []\<rparr>"
proof -
  define t where "t = restreamed_widget\<lparr>token_buffer := []\<rparr>"
  have k: "w_is_bot (last (message_widgets (layout restreamed_widget)))"
    by (simp add: restreamed_widget_layout streamed_entries)
  have m: "w_message (last (message_widgets (layout restreamed_widget))) = ''Hi there''"
    by (simp add: restreamed_widget_layout streamed_entries)
  have c: "concat (token_buffer restreamed_widget) = ''Hi there''"
    by (simp add: restreamed_widget_buffer)
  have h: "conversation_history restreamed_widget = []"
    using session_inv_reachable [OF reachable_restreamed_widget] by (simp add: session_inv_def)
  have f: "reflushed_widget =
             fst (add_message_to_conversation example_env t ''Bot'' ''Hi there'' True False)"
    by (simp add: reflushed_widget_def flush_token_buffer_def drain_def Let_def c h t_def
        env_fields)
  have e: "message_widgets (layout t) \<noteq> []"
    by (simp add: t_def restreamed_widget_layout streamed_entries)
  have b: "w_is_bot (last (message_widgets (layout t)))"
    by (simp add: t_def restreamed_widget_layout streamed_entries)
  have s: "strip_names_from_message example_env ''Hi there'' (username example_env)
             (botname example_env) \<noteq> []"
    by (simp add: env_fields)
  have x: "effects reflushed_widget =
             effects restreamed_widget @
               [Logged (UpdateMessage ''Hi there'') (generating t) (held_message t),
                Logged (ScheduleScroll 0) (generating t) (held_message t)]"
    using add_message_mutates(4) [OF e b s, of "''Bot''" True]
    by (simp add: f) (simp add: t_def env_fields)
  then have d: "map eff (drop (length (effects restreamed_widget)) (effects reflushed_widget)) =
     [UpdateMessage ''Hi there'', ScheduleScroll 0]"
    by simp
  have "effects reflushed_widget \<noteq> effects t"
    by (simp add: x) (simp add: t_def)
  then have "reflushed_widget \<noteq> t" by auto
  with k m c h d show ?thesis by (simp add: t_def)
qed

text \<open>
  C6, as amended. Let the view have entries, let \<open>first_message\<close> be False, and take the
  streamed text after \<open>strip_names_from_message\<close>. If the stripped text is non-empty and
  the most recent entry is a bot message, that entry is updated in place: its
  \<open>update_message\<close> is called with the stripped text, no widget is returned, and the
  number of entries and of layout items is unchanged. If the stripped text is non-empty
  and the most recent entry is not a bot message, the backward search stops there and a
  new entry holding the stripped text is appended after the existing ones, so the
  number of entries grows by one. If the stripped text is empty, no entry is updated
  and none is appended.
\<close>

theorem add_message_mutates_or_appends:
  assumes "message_widgets (layout s) \<noteq> []"
  shows "(w_is_bot (last (message_widgets (layout s))) \<and>
          strip_names_from_message E text (username E) (botname E) \<noteq> [] \<longrightarrow>
            snd (add_message_to_conversation E s n text b False) = None \<and>
            message_widgets (layout (fst (add_message_to_conversation E s n text b False))) =
              butlast (message_widgets (layout s)) @
                [update_message E (last (message_widgets (layout s)))
                   (strip_names_from_message E text (username E) (botname E))] \<and>
            length (message_widgets (layout (fst (add_message_to_conversation E s n text b False)))) =
              length (message_widgets (layout s)) \<and>
            length (layout (fst (add_message_to_conversation E s n text b False))) =
              length (layout s)) \<and>
         (\<not> w_is_bot (last (message_widgets (layout s))) \<and>
          strip_names_from_message E text (username E) (botname E) \<noteq> [] \<longrightarrow>
            (\<exists>w. snd (add_message_to_conversation E s n text b False) = Some w \<and>
               message_widgets (layout (fst (add_message_to_conversation E s n text b False))) =
                 message_widgets (layout s) @ [w] \<and>
               w_message w = strip_names_from_message E text (username E) (botname E) \<and>
               w_is_bot w = b \<and> w_name w = n) \<and>
            length (message_widgets (layout (fst (add_message_to_conversation E s n text b False)))) =
              length (message_widgets (layout s)) + 1) \<and>
         (strip_names_from_message E text (username E) (botname E) = [] \<longrightarrow>
            snd (add_message_to_conversation E s n text b False) = None \<and>
            message_widgets (layout (fst (add_message_to_conversation E s n text b False))) =
              message_widgets (layout s))"
proof (cases "strip_names_from_message E text (username E) (botname E) = []")
  case True
  with add_message_empty [OF True, of s n b] show ?thesis by simp
next
  case ne: False
  show ?thesis
  proof (cases "w_is_bot (last (message_widgets (layout s)))")
    case True
    note m = add_message_mutates [OF assms True ne, of n b]
    have "length (butlast (message_widgets (layout s))) + 1 = length (message_widgets (layout s))"
      using assms by (simp add: Suc_pred)
    with True ne m(1,2,3) show ?thesis by simp
  next
    case False
    from add_message_appends [OF assms False ne, of n b] False ne show ?thesis
      by auto
  qed
qed

text \<open>
  C6, witness: with the bot answer \<open>Hi there\<close> as the most recent entry, the text
  \<open>Hello\<close> goes to that entry's \<open>update_message\<close> and two entries remain; with the user
  message \<open>hello\<close> as the most recent entry, the text \<open>Hi\<close> is appended as a second entry;
  the text \<open>Bot: \<close>, which the stripping leaves empty, changes no entry.
\<close>

theorem add_message_mutates_or_appends_witness:
  "w_is_bot (last (message_widgets (layout streamed_widget))) \<and>
   message_widgets (layout
      (fst (add_message_to_conversation example_env streamed_widget ''Bot'' ''Hello'' True False))) =
     butlast (message_widgets (layout streamed_widget)) @
       [update_message example_env (last (message_widgets (layout streamed_widget))) ''Hello''] \<and>
   length (message_widgets (layout
      (fst (add_message_to_conversation example_env streamed_widget ''Bot'' ''Hello'' True False)))) = 2 \<and>
   \<not> w_is_bot (last (message_widgets (layout asked_widget))) \<and>
   length (message_widgets (layout asked_widget)) = 1 \<and>
   length (message_widgets (layout
      (fst (add_message_to_conversation example_env asked_widget ''Bot'' ''Hi'' True False)))) = 2 \<and>
   message_widgets (layout
      (fst (add_message_to_conversation stripping_env asked_widget ''Bot'' ''Bot: '' True False))) =
     message_widgets (layout asked_widget)"
proof -
  have e1: "message_widgets (layout streamed_widget) \<noteq> []" by (simp add: streamed_entries)
  have e2: "message_widgets (layout asked_widget) \<noteq> []" by (simp add: asked_entries)
  have b1: "w_is_bot (last (message_widgets (layout streamed_widget)))"
    by (simp add: streamed_entries)
  have b2: "\<not> w_is_bot (last (message_widgets (layout asked_widget)))"
    by (simp add: asked_entries)
  have l1: "length (message_widgets (layout streamed_widget)) = 2" by (simp add: streamed_entries)
  have l2: "length (message_widgets (layout asked_widget)) = 1" by (simp add: asked_entries)
  from add_message_mutates_or_appends [OF e1, of example_env "''Hello''" "''Bot''" True] b1 l1
  have m: "message_widgets (layout
      (fst (add_message_to_conversation example_env streamed_widget ''Bot'' ''Hello'' True False))) =
      butlast (message_widgets (layout streamed_widget)) @
        [update_message example_env (last (message_widgets (layout streamed_widget))) ''Hello''] \<and>
      length (message_widgets (layout
      (fst (add_message_to_conversation example_env streamed_widget ''Bot'' ''Hello'' True False)))) = 2"
    by (simp add: env_fields)
  from add_message_mutates_or_appends [OF e2, of example_env "''Hi''" "''Bot''" True] b2 l2
  have a: "length (message_widgets (layout
      (fst (add_message_to_conversation example_env asked_widget ''Bot'' ''Hi'' True False)))) = 2"
    by (simp add: env_fields)
  from add_message_mutates_or_appends [OF e2, of stripping_env "''Bot: ''" "''Bot''" True]
  have z: "message_widgets (layout
      (fst (add_message_to_conversation stripping_env asked_widget ''Bot'' ''Bot: '' True False))) =
     message_widgets (layout asked_widget)"
    by (simp add: env_fields strip_leading_name_bot)
  from b1 m b2 l2 a z show ?thesis by blast
qed

text \<open>
  C6, counterexample. The text \<open>Bot: \<close> is not empty, but a \<open>strip_names_from_message\<close>
  that removes the leading name leaves nothing of it: with a bot message as the most
  recent entry the widget is left as it is, and with a user message as the most recent
  entry no entry is appended. And with an \<open>update_message\<close> that appends, the content of
  the updated entry is not the new text.
\<close>

theorem stripped_empty_text_changes_nothing:
  "''Bot: '' \<noteq> [] \<and>
   w_is_bot (last (message_widgets (layout streamed_widget))) \<and>
   fst (add_message_to_conversation stripping_env streamed_widget ''Bot'' ''Bot: '' True False) =
     streamed_widget \<and>
   \<not> w_is_bot (last (message_widgets (layout asked_widget))) \<and>
   length (message_widgets (layout
      (fst (add_message_to_conversation stripping_env asked_widget ''Bot'' ''Bot: '' True False)))) =
     length (message_widgets (layout asked_widget)) \<and>
   map w_message (message_widgets (layout
      (fst (add_message_to_conversation appending_env streamed_widget ''Bot'' ''Hello'' True False)))) =
     [''hello'', ''Hi thereHello'']"
proof -
  have e1: "message_widgets (layout streamed_widget) \<noteq> []" by (simp add: streamed_entries)
  have b1: "w_is_bot (last (message_widgets (layout streamed_widget)))"
    by (simp add: streamed_entries)
  have b2: "\<not> w_is_bot (last (message_widgets (layout asked_widget)))"
    by (simp add: asked_entries)
  have z: "strip_names_from_message stripping_env ''Bot: '' (username stripping_env)
             (botname stripping_env) = []"
    by (simp add: env_fields strip_leading_name_bot)
  from e1 obtain i
    where f: "find_message_widget (layout streamed_widget) (length (layout streamed_widget)) =
                Some (i, last (message_widgets (layout streamed_widget)))"
    by (rule find_message_widget_exists)
  have u: "fst (add_message_to_conversation stripping_env streamed_widget ''Bot'' ''Bot: '' True False) =
             streamed_widget"
    using f b1 z by (simp add: add_message_to_conversation_def)
  have a: "length (message_widgets (layout
      (fst (add_message_to_conversation stripping_env asked_widget ''Bot'' ''Bot: '' True False)))) =
     length (message_widgets (layout asked_widget))"
    using add_message_empty [OF z, of asked_widget "''Bot''" True] by simp
  have n: "strip_names_from_message appending_env ''Hello'' (username appending_env)
             (botname appending_env) \<noteq> []"
    by (simp add: env_fields)
  have p: "map w_message (message_widgets (layout
      (fst (add_message_to_conversation appending_env streamed_widget ''Bot'' ''Hello'' True False)))) =
     [''hello'', ''Hi thereHello'']"
    using add_message_mutates(1) [OF e1 b1 n, of "''Bot''" True]
    by (simp add: env_fields streamed_entries update_message_appending_def)
  from b1 u b2 a p show ?thesis by simp
qed

end
